theory Spec2Isabelle
  imports Complex_Main "HOL-Library.Multiset" "HOL-Library.Char_ord" "HOL-Library.List_Lexorder"
begin

section \<open>Numeric cells\<close>

text \<open>
  The statistics stage and the significance extractor work on the float cells of a pandas
  dataframe. A cell is a double: NaN, an infinity or a finite value, given by the real number
  it stands for; the sign of zero is not kept. What the source does with a cell itself is
  exact on doubles and is modelled here: the tests for NaN and for zero, the comparison with
  a constant, the change of sign and the replacement of a cell by another.
\<close>

datatype pyfloat = NaN | PInf | NInf | Fin real

text \<open>\<^verbatim>\<open>math.isnan(v)\<close> and \<^verbatim>\<open>v == 0\<close>.\<close>

fun isnan :: "pyfloat \<Rightarrow> bool" where
  "isnan NaN = True"
| "isnan _ = False"

fun eq_zero :: "pyfloat \<Rightarrow> bool" where
  "eq_zero (Fin x) = (x = 0)"
| "eq_zero _ = False"

text \<open>\<^verbatim>\<open>v > c\<close> and \<^verbatim>\<open>v < c\<close> against a finite constant: every comparison with NaN is false.\<close>

fun gt :: "pyfloat \<Rightarrow> real \<Rightarrow> bool" where
  "gt (Fin x) c = (x > c)"
| "gt PInf c = True"
| "gt _ c = False"

fun lt :: "pyfloat \<Rightarrow> real \<Rightarrow> bool" where
  "lt (Fin x) c = (x < c)"
| "lt NInf c = True"
| "lt _ c = False"

fun fneg :: "pyfloat \<Rightarrow> pyfloat" where
  "fneg NaN = NaN"
| "fneg PInf = NInf"
| "fneg NInf = PInf"
| "fneg (Fin a) = Fin (- a)"

text \<open>
  The arithmetic on cells is numpy's and pandas', in doubles, with their rounding, overflow
  and underflow. It is not modelled: the routines the source calls are parameters of the
  model, and nothing is assumed of what they return. \<open>np_mean\<close> stands for \<^verbatim>\<open>mean(axis=1)\<close>
  over the three cells of a triplicate, \<open>np_divide\<close> for the division of two cells, \<open>np_log2\<close>
  and \<open>np_log10\<close> for \<^verbatim>\<open>np.log2\<close> and \<^verbatim>\<open>np.log10\<close>.
\<close>

record numerics =
  np_mean :: "pyfloat list \<Rightarrow> pyfloat"
  np_divide :: "pyfloat \<Rightarrow> pyfloat \<Rightarrow> pyfloat"
  np_log2 :: "pyfloat \<Rightarrow> pyfloat"
  np_log10 :: "pyfloat \<Rightarrow> pyfloat"

text \<open>The literal \<^verbatim>\<open>10E-15\<close>, that is \<open>10\<^sup>-\<^sup>1\<^sup>4\<close>.\<close>

definition epsilon :: real where
  "epsilon = 1 / 10 ^ 14"

section \<open>Text\<close>

definition TAB :: char where
  "TAB = CHR 0x09"

definition NL :: char where
  "NL = CHR 0x0A"

text \<open>
  \<^verbatim>\<open>str.lower()\<close> on the code points below 256: the ASCII capitals and the Latin-1 capitals
  (all of 0xC0 to 0xDE but the multiplication sign 0xD7) move up by 32.
\<close>

definition lower_char :: "char \<Rightarrow> char" where
  "lower_char c =
     (let n = (of_char c :: nat) in
      if (65 \<le> n \<and> n \<le> 90) \<or> (192 \<le> n \<and> n \<le> 222 \<and> n \<noteq> 215)
      then char_of (n + 32) else c)"

definition lower :: "string \<Rightarrow> string" where
  "lower s = map lower_char s"

text \<open>
  \<^verbatim>\<open>str.isspace()\<close> on the code points below 256: tab, line feed, vertical tab, form feed,
  carriage return, the separators 0x1C to 0x1F, space, next line (0x85) and no-break space.
\<close>

definition isspace :: "char \<Rightarrow> bool" where
  "isspace c =
     (let n = (of_char c :: nat) in
      (9 \<le> n \<and> n \<le> 13) \<or> (28 \<le> n \<and> n \<le> 32) \<or> n = 133 \<or> n = 160)"

text \<open>\<^verbatim>\<open>s.strip()\<close>: the whitespace at both ends goes.\<close>

definition strip :: "string \<Rightarrow> string" where
  "strip s = rev (dropWhile isspace (rev (dropWhile isspace s)))"

text \<open>
  \<^verbatim>\<open>s.split(sep)\<close> for a separator of one character: one field more than there are
  separators, so the result is never empty.
\<close>

fun split :: "char \<Rightarrow> string \<Rightarrow> string list" where
  "split sep [] = [[]]"
| "split sep (c # cs) =
     (if c = sep then [] # split sep cs
      else (case split sep cs of [] \<Rightarrow> [[c]] | f # fs \<Rightarrow> (c # f) # fs))"


text \<open>\<^verbatim>\<open>sep.join(xs)\<close>.\<close>

fun join :: "string \<Rightarrow> string list \<Rightarrow> string" where
  "join sep [] = []"
| "join sep [x] = x"
| "join sep (x # y # ys) = x @ sep @ join sep (y # ys)"

text \<open>
  \<^verbatim>\<open>readlines()\<close> (and the iteration over a file) on the text of a file after newline
  translation: the lines with their line feed, the last one without when the text does not
  end with one.
\<close>

fun readlines :: "string \<Rightarrow> string list" where
  "readlines [] = []"
| "readlines (c # cs) =
     (if c = NL then [c] # readlines cs
      else (case readlines cs of [] \<Rightarrow> [[c]] | l # ls \<Rightarrow> (c # l) # ls))"

text \<open>The fields of a written line: the line without its line feed, split at the tabs.\<close>

definition line_fields :: "string \<Rightarrow> string list" where
  "line_fields line = split TAB (butlast line)"

section \<open>Statistics stage\<close>

subsection \<open>Choice of the test\<close>

text \<open>
  The values of \<^verbatim>\<open>test_mapping\<close>: five scipy functions and the string \<^verbatim>\<open>'welch'\<close>.
\<close>

datatype test_fn = Ttest_ind | Welch | Mannwhitneyu | Wilcoxon | Kruskal | F_oneway

definition test_mapping :: "string \<rightharpoonup> test_fn" where
  "test_mapping =
     [''t-test'' \<mapsto> Ttest_ind,
      ''welch'' \<mapsto> Welch,
      ''mannwhitneyu'' \<mapsto> Mannwhitneyu,
      ''wilcoxon'' \<mapsto> Wilcoxon,
      ''kruskal'' \<mapsto> Kruskal,
      ''f_oneway'' \<mapsto> F_oneway]"

definition get_test_function :: "string \<Rightarrow> test_fn" where
  "get_test_function test_name =
     (case test_mapping (lower test_name) of Some f \<Rightarrow> f | None \<Rightarrow> Ttest_ind)"

subsection \<open>Merged rows\<close>

text \<open>
  A row of the merged dataframe \<^verbatim>\<open>combined_df\<close>: the accession and the three replicate
  cells of each condition (columns \<^verbatim>\<open>1_suf\<close>, \<^verbatim>\<open>2_suf\<close>, \<^verbatim>\<open>3_suf\<close>). After the outer merge
  on the accession, the cells of a condition the accession is absent from are NaN. The
  annotation columns take no part in any computation and are left out.
\<close>

record merged_row =
  accession :: string
  r1_1 :: pyfloat
  r2_1 :: pyfloat
  r3_1 :: pyfloat
  r1_2 :: pyfloat
  r2_2 :: pyfloat
  r3_2 :: pyfloat

definition group1 :: "merged_row \<Rightarrow> pyfloat list" where
  "group1 row = [r1_1 row, r2_1 row, r3_1 row]"

definition group2 :: "merged_row \<Rightarrow> pyfloat list" where
  "group2 row = [r1_2 row, r2_2 row, r3_2 row]"

subsection \<open>Row validity\<close>

definition valid_triplicate :: "pyfloat list \<Rightarrow> bool" where
  "valid_triplicate values =
     (let nan_count = length (filter isnan values) in nan_count = 0 \<or> nan_count = 3)"

definition is_all_zero :: "pyfloat list \<Rightarrow> bool" where
  "is_all_zero values = list_all eq_zero values"

definition valid_row :: "merged_row \<Rightarrow> bool" where
  "valid_row row =
     (if is_all_zero (group1 row) \<and> is_all_zero (group2 row) then False
      else valid_triplicate (group1 row) \<and> valid_triplicate (group2 row))"

text \<open>\<^verbatim>\<open>fillna(0)\<close> on a cell and on the replicates of a row.\<close>

fun fillna :: "pyfloat \<Rightarrow> pyfloat" where
  "fillna NaN = Fin 0"
| "fillna v = v"

definition fillna_row :: "merged_row \<Rightarrow> merged_row" where
  "fillna_row row =
     row\<lparr>r1_1 := fillna (r1_1 row), r2_1 := fillna (r2_1 row), r3_1 := fillna (r3_1 row),
         r1_2 := fillna (r1_2 row), r2_2 := fillna (r2_2 row), r3_2 := fillna (r3_2 row)\<rparr>"

definition presence_annotation :: "merged_row \<Rightarrow> string \<Rightarrow> string \<Rightarrow> string" where
  "presence_annotation row suf_1 suf_2 =
     (if is_all_zero (group1 row) \<and> \<not> is_all_zero (group2 row) then ''Only_'' @ suf_2
      else if is_all_zero (group2 row) \<and> \<not> is_all_zero (group1 row) then ''Only_'' @ suf_1
      else ''Both'')"

subsection \<open>Row averages and fold change\<close>

text \<open>\<^verbatim>\<open>Series.replace(0, 10E-15)\<close> on one cell.\<close>

definition replace_zero :: "pyfloat \<Rightarrow> pyfloat" where
  "replace_zero v = (if eq_zero v then Fin epsilon else v)"

text \<open>\<^verbatim>\<open>replace([np.inf, -np.inf], np.nan)\<close> on one cell.\<close>

fun replace_inf :: "pyfloat \<Rightarrow> pyfloat" where
  "replace_inf PInf = NaN"
| "replace_inf NInf = NaN"
| "replace_inf v = v"

text \<open>
  \<^verbatim>\<open>calculate_log2_fold_change\<close> takes the two average columns and returns them as it leaves
  them in the dataframe (zeros replaced, where the column has one) with the log ratio. The
  rows \<^verbatim>\<open>dropna()\<close> removes from the ratio come back as NaN when the series is assigned to the
  column by index, so the returned column has a NaN at their places.
\<close>

definition calculate_log2_fold_change ::
  "numerics \<Rightarrow> pyfloat list \<Rightarrow> pyfloat list \<Rightarrow> pyfloat list \<times> pyfloat list \<times> pyfloat list" where
  "calculate_log2_fold_change np avg_1 avg_2 =
     (let avg_2' = (if list_ex eq_zero avg_2 then map replace_zero avg_2 else avg_2);
          avg_1' = (if list_ex eq_zero avg_1 then map replace_zero avg_1 else avg_1);
          log2_fc = map (\<lambda>(a, b). replace_inf (np_log2 np (np_divide np a b))) (zip avg_1' avg_2')
      in (avg_1', avg_2', log2_fc))"

subsection \<open>p-values\<close>

text \<open>
  The tests are scipy's. \<open>scipy f g1 g2\<close> stands for the p-value of the call the source
  makes for the test \<open>f\<close> on two groups (for \<open>Welch\<close> that is \<^verbatim>\<open>ttest_ind\<close> with
  \<^verbatim>\<open>equal_var=False\<close>), and is \<open>None\<close> when the call raises \<^verbatim>\<open>ValueError\<close>, which the
  source catches.
\<close>

type_synonym scipy_tests = "test_fn \<Rightarrow> pyfloat list \<Rightarrow> pyfloat list \<Rightarrow> pyfloat option"

definition row_pvalue :: "scipy_tests \<Rightarrow> test_fn \<Rightarrow> merged_row \<Rightarrow> pyfloat" where
  "row_pvalue scipy test_func row =
     (let g1 = group1 row; g2 = group2 row;
          eps3 = [Fin epsilon, Fin epsilon, Fin epsilon];
          g1' = (if list_all eq_zero g1 then eps3 else g1);
          g2' = (if \<not> list_all eq_zero g1 \<and> list_all eq_zero g2 then eps3 else g2)
      in case scipy test_func g1' g2' of None \<Rightarrow> Fin 1 | Some p_val \<Rightarrow> p_val)"

definition calculate_pvalues :: "scipy_tests \<Rightarrow> test_fn \<Rightarrow> merged_row list \<Rightarrow> pyfloat list" where
  "calculate_pvalues scipy test_func df = map (row_pvalue scipy test_func) df"

subsection \<open>Multiple-testing correction\<close>

definition valid_methods :: "string list" where
  "valid_methods = [''bonferroni'', ''holm'', ''sidak'', ''fdr_bh'', ''fdr_by'']"

definition neg_log10 :: "numerics \<Rightarrow> pyfloat list \<Rightarrow> pyfloat list" where
  "neg_log10 np ps = map (\<lambda>p. fneg (np_log10 np p)) ps"

text \<open>
  \<open>multipletests method ps\<close> stands for the corrected p-values of statsmodels'
  \<^verbatim>\<open>multipletests\<close>. The result of \<^verbatim>\<open>multiple_testing_correction\<close> is what it prints and the
  pair it returns.
\<close>

definition multiple_testing_correction ::
  "numerics \<Rightarrow> (string \<Rightarrow> pyfloat list \<Rightarrow> pyfloat list) \<Rightarrow> pyfloat list \<Rightarrow> string
     \<Rightarrow> string list \<times> pyfloat list \<times> pyfloat list" where
  "multiple_testing_correction np multipletests p_values method =
     (if method = ''None''
      then ([''No multiple testing correction applied.''], p_values, neg_log10 np p_values)
      else if method \<notin> set valid_methods
      then ([''Invalid correction method '' @ [CHR 0x27] @ method @ [CHR 0x27]
               @ '', using '' @ [CHR 0x27] @ ''None'' @ [CHR 0x27] @ '' by default.''],
            p_values, neg_log10 np p_values)
      else (let corrected_pvals = multipletests method p_values
            in ([], corrected_pvals, neg_log10 np corrected_pvals)))"

subsection \<open>The stage\<close>

datatype error = KeyError string | ValueError | IndexError

text \<open>
  The exported dataframe, column by column. \<open>index\<close> is the dataframe's index: the positions
  the kept rows had in the merged dataframe. The two standard-deviation columns are left out.
\<close>

record table =
  index :: "nat list"
  rows :: "merged_row list"
  present_only_in :: "string list"
  row_average_1 :: "pyfloat list"
  row_average_2 :: "pyfloat list"
  log2_fold_change :: "pyfloat list"
  adj_p_values :: "pyfloat list"
  neg_log10_adj_p_values :: "pyfloat list"
  log10_adj_p_values :: "pyfloat list"

text \<open>
  \<^verbatim>\<open>process_files\<close> from the merged dataframe on; \<open>suf_1\<close> and \<open>suf_2\<close> are the two suffixes
  it takes from the file names. Assigning an array of the wrong length to a column raises
  \<^verbatim>\<open>ValueError\<close>. Without a correction the source reads the column \<^verbatim>\<open>P_Values\<close>, which the
  dataframe does not have, before it writes the file. The name of the file written does not
  enter the model, and a merged dataframe without any row is outside it: what \<^verbatim>\<open>apply\<close>
  returns for a dataframe without rows is not a series of booleans. The two suffixes are
  taken to differ: with equal suffixes the replicate columns of the two files have the same
  names, and the merge does not give the columns the stage reads.
\<close>

definition process_files ::
  "numerics \<Rightarrow> scipy_tests \<Rightarrow> (string \<Rightarrow> pyfloat list \<Rightarrow> pyfloat list) \<Rightarrow> merged_row list
     \<Rightarrow> string \<Rightarrow> string \<Rightarrow> string \<Rightarrow> string \<Rightarrow> error + table" where
  "process_files np scipy multipletests combined_df test_name correction_method suf_1 suf_2 =
     (let test_func = get_test_function test_name;
          kept = filter (\<lambda>(i, row). valid_row row) (zip [0..<length combined_df] combined_df);
          df = map (\<lambda>(i, row). fillna_row row) kept;
          present = map (\<lambda>row. presence_annotation row suf_1 suf_2) df;
          (avg_1, avg_2, log2_fc) =
             calculate_log2_fold_change np (map (\<lambda>row. np_mean np (group1 row)) df)
                                           (map (\<lambda>row. np_mean np (group2 row)) df);
          raw_pvals = calculate_pvalues scipy test_func df
      in if correction_method \<noteq> ''None''
         then (let (printed, corrected_pvals, neglog_pvals) =
                     multiple_testing_correction np multipletests raw_pvals correction_method
               in if length corrected_pvals \<noteq> length df then Inl ValueError
                  else Inr \<lparr>index = map fst kept, rows = df, present_only_in = present,
                            row_average_1 = avg_1, row_average_2 = avg_2,
                            log2_fold_change = log2_fc, adj_p_values = corrected_pvals,
                            neg_log10_adj_p_values = neglog_pvals,
                            log10_adj_p_values = neg_log10 np corrected_pvals\<rparr>)
         else Inl (KeyError ''P_Values''))"

section \<open>Reformatter\<close>

definition selected_columns :: "nat list" where
  "selected_columns = [0, 1, 5, 6, 7]"

text \<open>One data row: the selected columns of the stripped line, an empty string for a missing one.\<close>

definition filtered_columns :: "string \<Rightarrow> string list" where
  "filtered_columns line =
     (let columns = split TAB (strip line)
      in map (\<lambda>idx. if idx < length columns then columns ! idx else []) selected_columns)"

definition format_row :: "string \<Rightarrow> string" where
  "format_row line = join [TAB] (filtered_columns line) @ [NL]"

definition rename_header :: "string list \<Rightarrow> string list" where
  "rename_header header =
     header[0 := ''Accession Number'', 1 := ''Annotation'', 5 := ''1'', 6 := ''2'', 7 := ''3'']"

text \<open>The sort key \<^verbatim>\<open>x.split('\t')[0]\<close> of a formatted line.\<close>

definition sort_field :: "string \<Rightarrow> string" where
  "sort_field x = hd (split TAB x)"

text \<open>
  The body of the loop of \<^verbatim>\<open>format_proteomefiles\<close> for one file, from the text of the file to
  the text written to the \<^verbatim>\<open>_formatted\<close> file: \<open>None\<close> when the file is skipped and nothing is
  written. \<^verbatim>\<open>lines[0]\<close> of a file without lines raises \<^verbatim>\<open>IndexError\<close>. Python's \<^verbatim>\<open>sorted\<close> is
  stable and compares strings by code point, as \<open>sort_key\<close> on \<open>string\<close> does.
\<close>

definition format_proteomefiles :: "string \<Rightarrow> error + string option" where
  "format_proteomefiles content =
     (case readlines content of
        [] \<Rightarrow> Inl IndexError
      | first # rest \<Rightarrow>
          (let header = split TAB (strip first)
           in if length header = 8
              then (let filtered_header = map (\<lambda>i. rename_header header ! i) selected_columns;
                        header_line = join [TAB] filtered_header @ [NL];
                        formatted_rows = map format_row rest;
                        sorted_lines = header_line # sort_key sort_field formatted_rows
                    in Inr (Some (concat sorted_lines)))
              else Inr None))"

section \<open>Annotator\<close>







section \<open>Significance extractor\<close>














section \<open>Sample inputs\<close>

text \<open>
  A merged dataframe of four rows: all zero in both conditions, absent from the second
  condition, one replicate missing, and present in both. The stand-ins for the tests and for
  the correction return a fixed p-value and leave the p-values as they are.
\<close>

definition demo_zero :: merged_row where
  "demo_zero = \<lparr>accession = ''SPO0001'', r1_1 = Fin 0, r2_1 = Fin 0, r3_1 = Fin 0,
                 r1_2 = Fin 0, r2_2 = Fin 0, r3_2 = Fin 0\<rparr>"

definition demo_absent :: merged_row where
  "demo_absent = \<lparr>accession = ''SPO0002'', r1_1 = Fin 2, r2_1 = Fin 3, r3_1 = Fin 4,
                 r1_2 = NaN, r2_2 = NaN, r3_2 = NaN\<rparr>"

definition demo_partial :: merged_row where
  "demo_partial = \<lparr>accession = ''SPO0003'', r1_1 = Fin 2, r2_1 = NaN, r3_1 = Fin 4,
                 r1_2 = Fin 1, r2_2 = Fin 1, r3_2 = Fin 1\<rparr>"

definition demo_both :: merged_row where
  "demo_both = \<lparr>accession = ''SPO0004'', r1_1 = Fin 2, r2_1 = Fin 3, r3_1 = Fin 4,
                 r1_2 = Fin 3, r2_2 = Fin 3, r3_2 = Fin 3\<rparr>"

definition demo_df :: "merged_row list" where
  "demo_df = [demo_zero, demo_absent, demo_partial, demo_both]"

definition demo_scipy :: scipy_tests where
  "demo_scipy f g1 g2 = Some (Fin (1 / 2))"

definition demo_multipletests :: "string \<Rightarrow> pyfloat list \<Rightarrow> pyfloat list" where
  "demo_multipletests method ps = ps"

text \<open>
  Stand-ins for the numeric routines, with the values the routines have on the sample rows
  where doubles are exact (the mean of three equal cells and of 2, 3 and 4, the ratio of a
  cell to itself, the logarithm of 1) and NaN everywhere else.
\<close>

definition demo_numerics :: numerics where
  "demo_numerics =
     \<lparr>np_mean = (\<lambda>cells. case cells of
                    [Fin a, Fin b, Fin c] \<Rightarrow>
                      if a = b \<and> b = c then Fin a
                      else if (a, b, c) = (2, 3, 4) then Fin 3 else NaN
                  | _ \<Rightarrow> NaN),
      np_divide = (\<lambda>x y. case (x, y) of
                    (Fin a, Fin b) \<Rightarrow> if a = b \<and> b \<noteq> 0 then Fin 1 else NaN
                  | _ \<Rightarrow> NaN),
      np_log2 = (\<lambda>x. if x = Fin 1 then Fin 0 else NaN),
      np_log10 = (\<lambda>x. if x = Fin 1 then Fin 0 else NaN)\<rparr>"

text \<open>
  A raw export of a header and two rows, the second row with an empty last cell, and the
  formatted file the reformatter writes for it.
\<close>

definition demo_raw :: string where
  "demo_raw = concat (map (\<lambda>columns. join [TAB] columns @ [NL])
     [[''Protein.Group'', ''Protein.Ids'', ''Protein.Names'', ''Genes'',
       ''First.Protein.Description'', ''S1'', ''S2'', ''S3''],
      [''SPO0002'', ''SPO0002'', ''n2'', ''g2'', ''d2'', ''10'', ''20'', ''30''],
      [''SPO0001'', ''SPO0001'', ''n1'', ''g1'', ''d1'', ''40'', ''50'', []]])"

definition demo_formatted :: string where
  "demo_formatted = concat (map (\<lambda>columns. join [TAB] columns @ [NL])
     [[''Accession Number'', ''Annotation'', ''1'', ''2'', ''3''],
      [''SPO0001'', ''SPO0001'', ''40'', ''50'', []],
      [''SPO0002'', ''SPO0002'', ''10'', ''20'', ''30'']])"












section \<open>Properties of the statistics stage\<close>

lemma zip_upt_nth: "zip [0..<length xs] xs = map (\<lambda>i. (i, xs ! i)) [0..<length xs]"
  by (rule nth_equalityI) simp_all

lemma kept_index:
  "map fst (filter (\<lambda>(i, row). P row) (zip [0..<length xs] xs)) = filter (\<lambda>i. P (xs ! i)) [0..<length xs]"
  by (simp add: zip_upt_nth filter_map comp_def)

lemma kept_rows:
  "map (\<lambda>(i, row). f row) (filter (\<lambda>(i, row). P row) (zip [0..<length xs] xs))
     = map (\<lambda>i. f (xs ! i)) (filter (\<lambda>i. P (xs ! i)) [0..<length xs])"
  by (simp add: zip_upt_nth filter_map comp_def)

lemma replace_zero_cond:
  "(if list_ex eq_zero xs then map replace_zero xs else xs) = map replace_zero xs"
  by (auto simp: list_ex_iff replace_zero_def intro!: map_idI [symmetric])

lemma calculate_log2_fold_change_eq:
  "calculate_log2_fold_change np (map f df) (map g df) =
     (map (\<lambda>row. replace_zero (f row)) df, map (\<lambda>row. replace_zero (g row)) df,
      map (\<lambda>row. replace_inf (np_log2 np (np_divide np (replace_zero (f row)) (replace_zero (g row))))) df)"
  unfolding calculate_log2_fold_change_def Let_def replace_zero_cond
  by (simp add: zip_map_map zip_same_conv_map comp_def)

lemma process_files_Inr:
  assumes "process_files np scipy multipletests combined_df test_name correction_method suf_1 suf_2 = Inr tab"
  shows "index tab = filter (\<lambda>i. valid_row (combined_df ! i)) [0..<length combined_df]"
    and "rows tab = map (\<lambda>i. fillna_row (combined_df ! i)) (index tab)"
    and "row_average_1 tab = map (\<lambda>row. replace_zero (np_mean np (group1 row))) (rows tab)"
    and "row_average_2 tab = map (\<lambda>row. replace_zero (np_mean np (group2 row))) (rows tab)"
    and "log2_fold_change tab =
           map (\<lambda>row. replace_inf (np_log2 np (np_divide np (replace_zero (np_mean np (group1 row)))
                                               (replace_zero (np_mean np (group2 row)))))) (rows tab)"
  using assms
  unfolding process_files_def Let_def calculate_log2_fold_change_eq kept_index kept_rows
  by (auto simp: split_def split: if_splits)

lemma mtc_length:
  assumes "\<And>ps. length (multipletests correction_method ps) = length ps"
  shows "length (fst (snd (multiple_testing_correction np multipletests p_values correction_method))) = length p_values"
  using assms by (simp add: multiple_testing_correction_def Let_def)

lemma process_files_completes:
  assumes "correction_method \<noteq> ''None''"
    and "\<And>ps. length (multipletests correction_method ps) = length ps"
  shows "\<exists>tab. process_files np scipy multipletests combined_df test_name correction_method suf_1 suf_2 = Inr tab"
  using assms(1) mtc_length [of multipletests correction_method, OF assms(2)]
  unfolding process_files_def Let_def calculate_log2_fold_change_eq kept_index kept_rows
  by (simp add: split_def calculate_pvalues_def)

text \<open>
  C1. A merged row whose two triplicates are all zero is not among the rows of the exported
  table, and the averages, fold changes and p-values are columns over the kept rows only.
  A row with a triplicate that is not all zero is kept or dropped by the NaN counts of its
  triplicates alone: the all-zero rule does not drop it.
\<close>

theorem all_zero_rows_dropped:
  assumes "process_files np scipy multipletests combined_df test_name correction_method suf_1 suf_2 = Inr tab"
    and "i < length combined_df"
  shows "(is_all_zero (group1 (combined_df ! i)) \<and> is_all_zero (group2 (combined_df ! i))
            \<longrightarrow> i \<notin> set (index tab))
       \<and> (\<not> (is_all_zero (group1 (combined_df ! i)) \<and> is_all_zero (group2 (combined_df ! i)))
            \<longrightarrow> (i \<in> set (index tab) \<longleftrightarrow>
                   valid_triplicate (group1 (combined_df ! i)) \<and> valid_triplicate (group2 (combined_df ! i))))
       \<and> rows tab = map (\<lambda>j. fillna_row (combined_df ! j)) (index tab)
       \<and> length (row_average_1 tab) = length (index tab)
       \<and> length (row_average_2 tab) = length (index tab)
       \<and> length (log2_fold_change tab) = length (index tab)
       \<and> length (adj_p_values tab) = length (index tab)"
proof -
  note pf = process_files_Inr [OF assms(1)]
  have mem: "i \<in> set (index tab) \<longleftrightarrow> valid_row (combined_df ! i)"
    using assms(2) by (simp add: pf(1))
  have len: "length (adj_p_values tab) = length (index tab)"
    using assms(1)
    unfolding process_files_def Let_def calculate_log2_fold_change_eq kept_index kept_rows
    by (auto simp: split_def split: if_splits)
  show ?thesis
    using len by (simp add: mem valid_row_def pf(2-5))
qed

theorem all_zero_rows_dropped_witness:
  "\<exists>tab. process_files demo_numerics demo_scipy demo_multipletests demo_df ''t-test'' ''bonferroni'' ''exp'' ''stat'' = Inr tab
     \<and> is_all_zero (group1 (demo_df ! 0)) \<and> is_all_zero (group2 (demo_df ! 0))
     \<and> 0 \<notin> set (index tab)
     \<and> \<not> is_all_zero (group1 (demo_df ! 1))
     \<and> 1 \<in> set (index tab)"
proof -
  have "\<exists>tab. process_files demo_numerics demo_scipy demo_multipletests demo_df ''t-test'' ''bonferroni'' ''exp'' ''stat'' = Inr tab"
    by (rule process_files_completes) (simp_all add: demo_multipletests_def)
  then obtain tab where eq:
    "process_files demo_numerics demo_scipy demo_multipletests demo_df ''t-test'' ''bonferroni'' ''exp'' ''stat'' = Inr tab"
    by blast
  have "0 \<notin> set (index tab)"
    using all_zero_rows_dropped [OF eq, of 0]
    by (simp add: demo_df_def demo_zero_def group1_def group2_def is_all_zero_def)
  moreover have "1 \<in> set (index tab)"
    using all_zero_rows_dropped [OF eq, of 1]
    by (simp add: demo_df_def demo_absent_def group1_def group2_def is_all_zero_def valid_triplicate_def)
  ultimately show ?thesis
    using eq by (simp add: demo_df_def demo_zero_def demo_absent_def group1_def group2_def is_all_zero_def)
qed












text \<open>
  C3. With the correction method \<^verbatim>\<open>'None'\<close> the stage does not reach the export: after it has
  set the adjusted p-values to the raw ones it reads the column \<^verbatim>\<open>P_Values\<close>, which no step
  creates, and stops with \<^verbatim>\<open>KeyError\<close>, whatever the rows of the merged dataframe and the
  test are.
\<close>

theorem no_correction_raises:
  assumes "combined_df \<noteq> []"
  shows "process_files np scipy multipletests combined_df test_name ''None'' suf_1 suf_2
           = Inl (KeyError ''P_Values'')"
  unfolding process_files_def Let_def by (simp add: split_def)

theorem no_correction_raises_witness:
  "demo_df \<noteq> []
   \<and> process_files demo_numerics demo_scipy demo_multipletests demo_df ''t-test'' ''None'' ''exp'' ''stat''
       = Inl (KeyError ''P_Values'')"
proof -
  have "demo_df \<noteq> []"
    by (simp add: demo_df_def)
  then show ?thesis
    using no_correction_raises [of demo_df demo_numerics demo_scipy demo_multipletests "''t-test''" "''exp''" "''stat''"]
    by simp
qed

text \<open>
  C4, as stated, fails for the test name: \<^verbatim>\<open>WELCH\<close> is no key of the mapping, yet it selects
  Welch's test and not the default, since the name is looked up in lower case.
\<close>

theorem test_name_default_counterexample:
  "test_mapping ''WELCH'' = None \<and> get_test_function ''WELCH'' \<noteq> Ttest_ind"
  by code_simp

text \<open>
  C4, amended. A correction method that is neither \<^verbatim>\<open>'None'\<close> nor one of the five valid
  methods makes \<open>multiple_testing_correction\<close> print one warning and return the raw p-values
  with their negative decimal logarithms; a test name whose lower-case form is no key of the
  mapping selects the default t-test.
\<close>

theorem invalid_choices_fall_back:
  "(method \<noteq> ''None'' \<and> method \<notin> {''bonferroni'', ''holm'', ''sidak'', ''fdr_bh'', ''fdr_by''}
      \<longrightarrow> (\<exists>warning. multiple_testing_correction np multipletests p_values method
              = ([warning], p_values, neg_log10 np p_values)))
   \<and> (test_mapping (lower test_name) = None \<longrightarrow> get_test_function test_name = Ttest_ind)"
  by (simp add: multiple_testing_correction_def valid_methods_def get_test_function_def)

theorem invalid_choices_fall_back_witness:
  "(\<exists>warning. multiple_testing_correction demo_numerics demo_multipletests [Fin (1 / 2)] ''fdr''
              = ([warning], [Fin (1 / 2)], neg_log10 demo_numerics [Fin (1 / 2)]))
   \<and> test_mapping (lower ''ttest_rel'') = None \<and> get_test_function ''ttest_rel'' = Ttest_ind"
proof -
  have m: "test_mapping (lower ''ttest_rel'') = None"
    by (simp add: test_mapping_def lower_def lower_char_def)
  show ?thesis
    using invalid_choices_fall_back [of "''fdr''" demo_numerics demo_multipletests "[Fin (1 / 2)]" "''ttest_rel''"] m
    by simp
qed

section \<open>Properties of the text functions\<close>


lemma split_no_sep: "f \<in> set (split sep s) \<Longrightarrow> sep \<notin> set f"
  by (induction s arbitrary: f) (auto split: if_splits list.splits)

lemma split_subset: "f \<in> set (split sep s) \<Longrightarrow> set f \<subseteq> set s"
  by (induction s arbitrary: f) (fastforce split: if_splits list.splits)+

lemma split_append_sep:
  "sep \<notin> set f \<Longrightarrow> split sep (f @ sep # rest) = f # split sep rest"
  by (induction f) (auto split: list.splits)

lemma split_no_sep_id: "sep \<notin> set f \<Longrightarrow> split sep f = [f]"
  by (induction f) (auto split: list.splits)

lemma split_join:
  "fs \<noteq> [] \<Longrightarrow> \<forall>f \<in> set fs. sep \<notin> set f \<Longrightarrow> split sep (join [sep] fs) = fs"
  by (induction "[sep]" fs rule: join.induct) (simp_all add: split_no_sep_id split_append_sep)

lemma set_strip: "set (strip s) \<subseteq> set s"
proof -
  have "set (dropWhile isspace (rev (dropWhile isspace s))) \<subseteq> set (rev (dropWhile isspace s))"
    by (rule set_dropWhileD [THEN subsetI]) 
  also have "\<dots> \<subseteq> set s"
    using set_dropWhileD [of _ isspace s] by auto
  finally show ?thesis
    by (simp add: strip_def)
qed

lemma isspace_NL: "isspace NL"
  by (simp add: isspace_def NL_def)

lemma strip_line: "NL \<notin> set b \<Longrightarrow> NL \<notin> set (strip (b @ [NL]))"
proof (cases "dropWhile isspace b = []")
  case True
  then have "dropWhile isspace (b @ [NL]) = []"
    by (simp add: dropWhile_append isspace_NL)
  then show ?thesis
    by (simp add: strip_def)
next
  case False
  assume nl: "NL \<notin> set b"
  from False have "\<exists>x \<in> set b. \<not> isspace x"
    by auto
  then have "dropWhile isspace (b @ [NL]) = dropWhile isspace b @ [NL]"
    by (auto intro: dropWhile_append1)
  then have "strip (b @ [NL]) = rev (dropWhile isspace (rev (dropWhile isspace b)))"
    by (simp add: strip_def isspace_NL)
  then have "strip (b @ [NL]) = strip b"
    by (simp add: strip_def)
  with nl set_strip [of b] show ?thesis
    by auto
qed

lemma readlines_line:
  "l \<in> set (readlines s) \<Longrightarrow> l \<noteq> [] \<and> NL \<notin> set (butlast l)"
  by (induction s arbitrary: l) (auto split: if_splits list.splits)

lemma strip_readlines: "l \<in> set (readlines s) \<Longrightarrow> NL \<notin> set (strip l)"
proof -
  assume "l \<in> set (readlines s)"
  then have l: "l \<noteq> []" "NL \<notin> set (butlast l)"
    using readlines_line by blast+
  show ?thesis
  proof (cases "last l = NL")
    case True
    with l have "l = butlast l @ [NL]"
      by (metis append_butlast_last_id)
    with strip_line [OF l(2)] show ?thesis
      by simp
  next
    case False
    with l have "NL \<notin> set l"
      by (metis append_butlast_last_id set_ConsD set_append Un_iff list.set(1) empty_iff)
    with set_strip [of l] show ?thesis
      by auto
  qed
qed

lemma readlines_line_append:
  "NL \<notin> set b \<Longrightarrow> readlines (b @ NL # rest) = (b @ [NL]) # readlines rest"
  by (induction b) (auto split: list.splits)

lemma readlines_concat:
  "\<forall>l \<in> set ls. l \<noteq> [] \<and> last l = NL \<and> NL \<notin> set (butlast l) \<Longrightarrow> readlines (concat ls) = ls"
proof (induction ls)
  case Nil
  then show ?case by simp
next
  case (Cons l ls)
  then have l: "l = butlast l @ [NL]" "NL \<notin> set (butlast l)"
    by (metis append_butlast_last_id list.set_intros(1)) (simp add: Cons.prems)
  have "readlines (concat (l # ls)) = readlines (butlast l @ NL # concat ls)"
    using l(1) by (metis append_Cons append_Nil append_assoc concat.simps(2))
  also have "\<dots> = (butlast l @ [NL]) # readlines (concat ls)"
    by (rule readlines_line_append [OF l(2)])
  finally show ?case
    using l(1) Cons by simp
qed

section \<open>Properties of the reformatter\<close>

lemma set_join: "set (join sep fs) \<subseteq> set sep \<union> \<Union> (set ` set fs)"
  by (induction sep fs rule: join.induct) auto

lemma TAB_neq_NL: "TAB \<noteq> NL"
  by (simp add: TAB_def NL_def)

lemma written_line:
  assumes "fs \<noteq> []" and "\<forall>f \<in> set fs. TAB \<notin> set f \<and> NL \<notin> set f"
  shows "line_fields (join [TAB] fs @ [NL]) = fs"
    and "join [TAB] fs @ [NL] \<noteq> []"
    and "last (join [TAB] fs @ [NL]) = NL"
    and "NL \<notin> set (butlast (join [TAB] fs @ [NL]))"
proof -
  show "line_fields (join [TAB] fs @ [NL]) = fs"
    using assms by (simp add: line_fields_def split_join)
  show "NL \<notin> set (butlast (join [TAB] fs @ [NL]))"
    using assms(2) set_join [of "[TAB]" fs] TAB_neq_NL by auto
qed simp_all

lemma rename_header_selected:
  "length header = 8 \<Longrightarrow>
     map (\<lambda>i. rename_header header ! i) selected_columns
       = [''Accession Number'', ''Annotation'', ''1'', ''2'', ''3'']"
  by (simp add: rename_header_def selected_columns_def)

lemma filtered_columns_clean:
  assumes "line \<in> set (readlines content)" and "f \<in> set (filtered_columns line)"
  shows "TAB \<notin> set f \<and> NL \<notin> set f"
proof -
  have "f = [] \<or> f \<in> set (split TAB (strip line))"
    using assms(2) by (auto simp: filtered_columns_def Let_def)
  then show ?thesis
    using split_no_sep [of f TAB "strip line"] split_subset [of f TAB "strip line"]
      strip_readlines [OF assms(1)]
    by auto
qed

lemma filtered_columns_length: "length (filtered_columns line) = 5"
  by (simp add: filtered_columns_def selected_columns_def Let_def)

lemma format_row_line:
  assumes "line \<in> set (readlines content)"
  shows "line_fields (format_row line) = filtered_columns line"
    and "format_row line \<noteq> []"
    and "last (format_row line) = NL"
    and "NL \<notin> set (butlast (format_row line))"
proof -
  have ne: "filtered_columns line \<noteq> []"
    using filtered_columns_length [of line] by auto
  have cl: "\<forall>f \<in> set (filtered_columns line). TAB \<notin> set f \<and> NL \<notin> set f"
    using filtered_columns_clean [OF assms] by blast
  show "line_fields (format_row line) = filtered_columns line"
    and "format_row line \<noteq> []"
    and "last (format_row line) = NL"
    and "NL \<notin> set (butlast (format_row line))"
    unfolding format_row_def by (rule written_line [OF ne cl])+
qed

lemma header_line:
  shows "line_fields (join [TAB] [''Accession Number'', ''Annotation'', ''1'', ''2'', ''3''] @ [NL])
           = [''Accession Number'', ''Annotation'', ''1'', ''2'', ''3'']"
    and "last (join [TAB] [''Accession Number'', ''Annotation'', ''1'', ''2'', ''3''] @ [NL]) = NL"
    and "NL \<notin> set (butlast (join [TAB] [''Accession Number'', ''Annotation'', ''1'', ''2'', ''3''] @ [NL]))"
  by (rule written_line; simp add: TAB_def NL_def)+

lemma format_proteomefiles_written:
  assumes "readlines content = first # rest" and "length (split TAB (strip first)) = 8"
  shows "format_proteomefiles content =
           Inr (Some (concat ((join [TAB] [''Accession Number'', ''Annotation'', ''1'', ''2'', ''3''] @ [NL])
                              # sort_key sort_field (map format_row rest))))"
  using assms by (simp add: format_proteomefiles_def Let_def rename_header_selected)

lemma format_proteomefiles_skipped:
  assumes "readlines content = first # rest" and "length (split TAB (strip first)) \<noteq> 8"
  shows "format_proteomefiles content = Inr None"
  using assms by (simp add: format_proteomefiles_def Let_def)

lemma format_proteomefiles_Some:
  assumes "format_proteomefiles content = Inr (Some out)"
  shows "\<exists>first rest. readlines content = first # rest \<and> length (split TAB (strip first)) = 8"
  using assms by (auto simp: format_proteomefiles_def Let_def split: list.splits if_splits)

lemma readlines_written:
  assumes "readlines content = first # rest"
  shows "readlines (concat ((join [TAB] [''Accession Number'', ''Annotation'', ''1'', ''2'', ''3''] @ [NL])
                              # sort_key sort_field (map format_row rest)))
          = (join [TAB] [''Accession Number'', ''Annotation'', ''1'', ''2'', ''3''] @ [NL])
              # sort_key sort_field (map format_row rest)"
proof (rule readlines_concat, rule ballI)
  fix l
  assume "l \<in> set ((join [TAB] [''Accession Number'', ''Annotation'', ''1'', ''2'', ''3''] @ [NL])
                              # sort_key sort_field (map format_row rest))"
  then consider "l = join [TAB] [''Accession Number'', ''Annotation'', ''1'', ''2'', ''3''] @ [NL]"
    | row where "row \<in> set rest" "l = format_row row"
    by auto
  then show "l \<noteq> [] \<and> last l = NL \<and> NL \<notin> set (butlast l)"
  proof cases
    case 1
    then show ?thesis
      using header_line(2,3) by auto
  next
    case 2
    then have "row \<in> set (readlines content)"
      by (simp add: assms)
    from format_row_line(2-4) [OF this] 2(2) show ?thesis
      by simp
  qed
qed

lemma demo_format: "format_proteomefiles demo_raw = Inr (Some demo_formatted)"
  by code_simp

text \<open>
  C6, as stated, fails at the header line: the header of the sample file has eight columns,
  and the header line written is not its columns 0, 1, 5, 6 and 7 but five fixed names.
\<close>

theorem five_columns_counterexample:
  "length (split TAB (strip (hd (readlines demo_raw)))) = 8
   \<and> format_proteomefiles demo_raw = Inr (Some demo_formatted)
   \<and> line_fields (hd (readlines demo_formatted))
       \<noteq> map ((!) (split TAB (strip (hd (readlines demo_raw))))) selected_columns"
  by code_simp

text \<open>
  C6, amended. For a file whose first line, stripped, has exactly eight tab-separated columns,
  a file is written with one line for each line read, every line of exactly five
  tab-separated fields: the header line is \<^verbatim>\<open>Accession Number\<close>, \<^verbatim>\<open>Annotation\<close>, \<^verbatim>\<open>1\<close>, \<^verbatim>\<open>2\<close>,
  \<^verbatim>\<open>3\<close>, and the data lines are those of the rows read, each with columns 0, 1, 5, 6 and 7 of
  the stripped row, the empty string standing for a column the row does not have. For a file
  whose first line has another number of columns nothing is written.
\<close>

theorem five_column_layout:
  assumes "readlines content = first # rest"
  shows "(length (split TAB (strip first)) = 8 \<longrightarrow>
           (\<exists>out. format_proteomefiles content = Inr (Some out)
              \<and> length (readlines out) = Suc (length rest)
              \<and> line_fields (hd (readlines out)) = [''Accession Number'', ''Annotation'', ''1'', ''2'', ''3'']
              \<and> (\<forall>line \<in> set (readlines out). length (line_fields line) = 5)
              \<and> set (tl (readlines out)) = format_row ` set rest
              \<and> (\<forall>row \<in> set rest.
                    line_fields (format_row row)
                      = map (\<lambda>idx. if idx < length (split TAB (strip row))
                                    then split TAB (strip row) ! idx else [])
                            [0, 1, 5, 6, 7])))
       \<and> (length (split TAB (strip first)) \<noteq> 8 \<longrightarrow> format_proteomefiles content = Inr None)"
proof (intro conjI impI)
  assume "length (split TAB (strip first)) \<noteq> 8"
  then show "format_proteomefiles content = Inr None"
    by (rule format_proteomefiles_skipped [OF assms])
next
  assume h: "length (split TAB (strip first)) = 8"
  define header_line where
    "header_line = join [TAB] [''Accession Number'', ''Annotation'', ''1'', ''2'', ''3''] @ [NL]"
  define out where "out = concat (header_line # sort_key sort_field (map format_row rest))"
  have w: "format_proteomefiles content = Inr (Some out)"
    unfolding out_def header_line_def by (rule format_proteomefiles_written [OF assms h])
  have r: "readlines out = header_line # sort_key sort_field (map format_row rest)"
    unfolding out_def header_line_def by (rule readlines_written [OF assms])
  have row: "line_fields (format_row row) = filtered_columns row" if "row \<in> set rest" for row
    using that by (intro format_row_line(1) [of row content]) (simp add: assms)
  have hf: "line_fields header_line = [''Accession Number'', ''Annotation'', ''1'', ''2'', ''3'']"
    unfolding header_line_def by (rule header_line(1))
  have five: "\<forall>line \<in> set (readlines out). length (line_fields line) = 5"
    unfolding r using hf row filtered_columns_length by auto
  have rows: "\<forall>row \<in> set rest.
                line_fields (format_row row)
                  = map (\<lambda>idx. if idx < length (split TAB (strip row))
                                then split TAB (strip row) ! idx else [])
                        [0, 1, 5, 6, 7]"
    using row by (simp add: filtered_columns_def selected_columns_def Let_def)
  show "\<exists>out. format_proteomefiles content = Inr (Some out)
              \<and> length (readlines out) = Suc (length rest)
              \<and> line_fields (hd (readlines out)) = [''Accession Number'', ''Annotation'', ''1'', ''2'', ''3'']
              \<and> (\<forall>line \<in> set (readlines out). length (line_fields line) = 5)
              \<and> set (tl (readlines out)) = format_row ` set rest
              \<and> (\<forall>row \<in> set rest.
                    line_fields (format_row row)
                      = map (\<lambda>idx. if idx < length (split TAB (strip row))
                                    then split TAB (strip row) ! idx else [])
                            [0, 1, 5, 6, 7])"
    using w five rows by (intro exI [of _ out]) (simp add: r hf)
qed

theorem five_column_layout_witness:
  "length (split TAB (strip (hd (readlines demo_raw)))) = 8
   \<and> format_proteomefiles demo_raw = Inr (Some demo_formatted)
   \<and> map (length \<circ> line_fields) (readlines demo_formatted) = [5, 5, 5]
   \<and> format_proteomefiles demo_formatted = Inr None"
proof -
  have l: "readlines demo_raw = hd (readlines demo_raw) # tl (readlines demo_raw)"
    and n: "length (tl (readlines demo_raw)) = 2"
    and h: "length (split TAB (strip (hd (readlines demo_raw)))) = 8"
    by code_simp+
  have l': "readlines demo_formatted = hd (readlines demo_formatted) # tl (readlines demo_formatted)"
    and h': "length (split TAB (strip (hd (readlines demo_formatted)))) \<noteq> 8"
    by code_simp+
  from five_column_layout [OF l] h n demo_format
  have "length (readlines demo_formatted) = 3
     \<and> (\<forall>line \<in> set (readlines demo_formatted). length (line_fields line) = 5)"
    by auto
  then have "map (length \<circ> line_fields) (readlines demo_formatted) = [5, 5, 5]"
    by (auto simp: length_Suc_conv eval_nat_numeral)
  moreover from five_column_layout [OF l'] h'
  have "format_proteomefiles demo_formatted = Inr None"
    by blast
  ultimately show ?thesis
    using h demo_format by blast
qed

text \<open>
  C8. In a file the reformatter writes, the header line comes first and the data lines
  after it are in ascending order of their sort key, the text before the first tab, which is
  the first field of the line; the data lines are, as a multiset, the formatted rows of the
  file read.
\<close>

theorem rows_sorted_by_accession:
  assumes "format_proteomefiles content = Inr (Some out)"
  shows "readlines out \<noteq> []
       \<and> line_fields (hd (readlines out)) = [''Accession Number'', ''Annotation'', ''1'', ''2'', ''3'']
       \<and> sorted (map sort_field (tl (readlines out)))
       \<and> (\<forall>line \<in> set (tl (readlines out)). sort_field line = hd (line_fields line))
       \<and> mset (tl (readlines out)) = mset (map format_row (tl (readlines content)))"
proof -
  from format_proteomefiles_Some [OF assms] obtain first rest
    where c: "readlines content = first # rest" and h: "length (split TAB (strip first)) = 8"
    by blast
  define header_line where
    "header_line = join [TAB] [''Accession Number'', ''Annotation'', ''1'', ''2'', ''3''] @ [NL]"
  have "out = concat (header_line # sort_key sort_field (map format_row rest))"
    using assms format_proteomefiles_written [OF c h] by (simp add: header_line_def)
  then have r: "readlines out = header_line # sort_key sort_field (map format_row rest)"
    unfolding header_line_def using readlines_written [OF c] by simp
  have hf: "line_fields header_line = [''Accession Number'', ''Annotation'', ''1'', ''2'', ''3'']"
    unfolding header_line_def by (rule header_line(1))
  have key: "sort_field (format_row row) = hd (line_fields (format_row row))"
    if "row \<in> set rest" for row
  proof -
    have rc: "row \<in> set (readlines content)"
      using that by (simp add: c)
    obtain f0 f1 fs where f: "filtered_columns row = f0 # f1 # fs"
      using filtered_columns_length [of row] by (auto simp: length_Suc_conv eval_nat_numeral)
    have "TAB \<notin> set f0"
      using filtered_columns_clean [OF rc, of f0] f by simp
    then have "sort_field (format_row row) = f0"
      by (simp add: sort_field_def format_row_def f split_append_sep)
    then show ?thesis
      by (simp add: format_row_line(1) [OF rc] f)
  qed
  show ?thesis
    using key by (auto simp: r hf c)
qed

theorem rows_sorted_by_accession_witness:
  "format_proteomefiles demo_raw = Inr (Some demo_formatted)
   \<and> map sort_field (tl (readlines demo_formatted)) = [''SPO0001'', ''SPO0002'']
   \<and> map sort_field (map format_row (tl (readlines demo_raw))) = [''SPO0002'', ''SPO0001'']
   \<and> sorted (map sort_field (tl (readlines demo_formatted)))
   \<and> mset (tl (readlines demo_formatted)) = mset (map format_row (tl (readlines demo_raw)))"
proof -
  have "map sort_field (tl (readlines demo_formatted)) = [''SPO0001'', ''SPO0002'']"
    and "map sort_field (map format_row (tl (readlines demo_raw))) = [''SPO0002'', ''SPO0001'']"
    by code_simp+
  then show ?thesis
    using rows_sorted_by_accession [OF demo_format] demo_format by blast
qed

section \<open>Properties of the annotator\<close>


























section \<open>Properties of the significance extractor\<close>

lemma gt_not_nan: "gt v c \<Longrightarrow> \<not> isnan v"
  by (cases v) simp_all

lemma lt_not_nan: "lt v c \<Longrightarrow> \<not> isnan v"
  by (cases v) simp_all



















end
